theory Spec2Isabelle
  imports Complex_Main "HOL-Library.Sublist"
begin

section \<open>The synthesis job pipeline of modules/bot_handlers.py\<close>

text \<open>
  The handlers of \<^verbatim>\<open>bot_handlers.py\<close> hand a synthesis job to the loop of the
  \<^verbatim>\<open>tts_worker\<close> thread (\<^verbatim>\<open>start_gen_task\<close>), run it there
  (\<^verbatim>\<open>run_gen_audio\<close>), and route what it produced (\<^verbatim>\<open>eval_gen_task\<close>,
  \<^verbatim>\<open>post_eval_gen_task\<close>, \<^verbatim>\<open>post_eval_gen_report_error\<close>).
  Each coroutine is a function from its arguments and the files on disk to the calls it
  makes on its collaborators (a list of events, in program order), its result (an
  exception is the \<open>Inl\<close> of a sum) and the files on disk afterwards.
\<close>

subsection \<open>Python strings and numbers\<close>

text \<open>A \<^verbatim>\<open>str\<close> is the list of its characters; \<^verbatim>\<open>len\<close> is \<open>length\<close> and
  \<^verbatim>\<open>s[:n]\<close> with \<open>n \<ge> 0\<close> is \<open>take n s\<close>.\<close>

definition digit :: "nat \<Rightarrow> char" where
  "digit d = ''0123456789'' ! d"

text \<open>\<^verbatim>\<open>str(n)\<close> for a non-negative int: its decimal digits, most significant first.\<close>

function str_nat :: "nat \<Rightarrow> string" where
  "str_nat n = (if n < 10 then [digit n] else str_nat (n div 10) @ [digit (n mod 10)])"
  by pat_completeness auto
termination
  by (relation "measure id") auto

definition str_int :: "int \<Rightarrow> string" where
  "str_int i = (if i < 0 then CHR ''-'' # str_nat (nat (- i)) else str_nat (nat i))"

text \<open>\<^verbatim>\<open>int(x)\<close> of a float truncates towards zero.\<close>

definition int_of_float :: "real \<Rightarrow> int" where
  "int_of_float x = (if 0 \<le> x then \<lfloor>x\<rfloor> else \<lceil>x\<rceil>)"

text \<open>\<^verbatim>\<open>s.replace(old, new)\<close>: every non-overlapping occurrence of \<open>old\<close>, from the
  left, becomes \<open>new\<close>; with an empty \<open>old\<close> Python puts \<open>new\<close> before every character and
  at the end.\<close>

function replace_from :: "string \<Rightarrow> string \<Rightarrow> string \<Rightarrow> string" where
  "replace_from old new [] = []"
| "replace_from old new (c # cs) =
     (if old \<noteq> [] \<and> prefix old (c # cs)
      then new @ replace_from old new (drop (length old) (c # cs))
      else c # replace_from old new cs)"
  by pat_completeness auto
termination
  by (relation "measure (\<lambda>(old, new, s). length s)") auto

definition replace :: "string \<Rightarrow> string \<Rightarrow> string \<Rightarrow> string" where
  "replace s old new =
     (if old = [] then new @ concat (map (\<lambda>c. c # new) s) else replace_from old new s)"

text \<open>\<^verbatim>\<open>range(n)\<close>: empty when \<open>n \<le> 0\<close>.\<close>

definition py_range :: "int \<Rightarrow> int list" where
  "py_range n = map int [0 ..< nat n]"

subsection \<open>Data carried by a job\<close>

datatype exn = Exception string | TelegramError string | RaisedFrom exn exn

record tg_user =
  user_id :: int
  mention_html :: string
  full_name :: string

record message =
  chat_id :: int
  message_id :: int

text \<open>\<^verbatim>\<open>update.effective_user\<close> and \<^verbatim>\<open>update.effective_message\<close> may be None.\<close>

record update =
  effective_user :: "tg_user option"
  effective_message :: "message option"

record user_settings =
  s_voice :: string
  s_emotion :: string
  s_samples_num :: int

text \<open>\<^verbatim>\<open>data: Union[str, ndarray]\<close>: the text, or the samples of a voice message.\<close>

datatype payload = Text string | Audio "real list"

type_synonym files = "string list"

text \<open>The arguments \<^verbatim>\<open>start_gen_task\<close> gives to \<^verbatim>\<open>run_gen_audio\<close> (the Application and
  the loop of the front thread are single objects and left out).\<close>

record job =
  j_update :: update
  j_progress_msg :: message
  j_filename_result :: string
  j_settings :: user_settings
  j_data :: payload
  j_user_voices_dir :: string

text \<open>The tuple \<^verbatim>\<open>run_gen_audio\<close> returns:
  \<^verbatim>\<open>update, app, progerss_msg, filename_result, data, settings.samples_num\<close>.\<close>

record gen_result =
  r_update :: update
  r_progress_msg :: message
  r_filename_result :: string
  r_data :: payload
  r_samples_num :: int

subsection \<open>Coroutines, loops and the calls on collaborators\<close>

datatype loop = AppLoop | TtsWorkerLoop

datatype task =
    RunGenAudio job
  | HandlePostEvalGenReportError update message exn
  | PostEvalGenReportError update message exn
  | PostEvalGenTask update string payload int "message option" message
  | DeleteProgressMsg message

datatype markup = InlineKeyboardMarkup "(string \<times> string) list list"

text \<open>A call the source makes, with what came back where the source handles a failure of it.
  \<open>AudioGenerationDone\<close> is the \<^verbatim>\<open>logger.info\<close> line at the end of an iteration of the
  delivery loop (user's full name, sample index, query). \<open>ReplyHtml\<close> is a
  \<^verbatim>\<open>reply_html\<close> that returned, \<open>ReplyHtmlRaised\<close> one that raised a \<^verbatim>\<open>TelegramError\<close>
  inside the \<^verbatim>\<open>try\<close> block of \<^verbatim>\<open>error_handler\<close>; \<open>SendMessage\<close> is
  \<^verbatim>\<open>bot.send_message(chat_id, text)\<close>.\<close>

datatype event =
    TranscribeVoice "real list" "exn + string"
  | ValidateText "tg_user option" string "exn + bool \<times> string"
  | TtsAudioFromText string payload string string string int "exn option"
  | RunCoroutineThreadsafe task loop
  | AddDoneCallback
  | AppCreateTask task
  | ClearDir string
  | LoggerError string "exn option"
  | AudioGenerationDone string int payload
  | MsgDelete message "string option"
  | ReplyHtml message string int
  | ReplyHtmlRaised message string int string
  | SendMessage int string
  | ConvertToVoice string "exn + string"
  | Open string bool
  | ReplyVoice message string payload int markup "exn option"

text \<open>
  The collaborators imported from \<^verbatim>\<open>modules.bot_utils\<close>, \<^verbatim>\<open>modules.tortoise_api\<close>,
  \<^verbatim>\<open>modules.whisper_api\<close>, \<^verbatim>\<open>modules.bot_settings\<close> and the messaging library are not
  in this file of the repository: they are parameters. A call fails where the source
  handles its failure: any \<^verbatim>\<open>Exception\<close> of a call inside a \<^verbatim>\<open>try\<close> block, and a
  \<^verbatim>\<open>TelegramError\<close> (with its message) of \<^verbatim>\<open>msg.delete()\<close> and of the
  \<^verbatim>\<open>reply_html\<close> of \<^verbatim>\<open>error_handler\<close>. The synthesis engine
  and the converter write files. The constants \<^verbatim>\<open>MAX_CHARS_NUM\<close> (a length),
  \<^verbatim>\<open>QUERY_PATTERN_RETRY\<close> and \<^verbatim>\<open>RESULTS_PATH\<close> are parameters too; \<open>RESULTS_PATH\<close>
  stands for the absolute, normalised directory that
  \<^verbatim>\<open>os.path.abspath(os.path.join(RESULTS_PATH, name))\<close> puts in front of \<open>/name\<close>.
  \<^verbatim>\<open>get_text_locale(user, get_cis_locale_dict(...), default)\<close> gets the default variant
  only: the other variant is a fixed Cyrillic text with the same interpolations.
\<close>

record env =
  MAX_CHARS_NUM :: nat
  RESULTS_PATH :: string
  QUERY_PATTERN_RETRY :: string
  transcribe_voice :: "real list \<Rightarrow> exn + string"
  validate_text :: "tg_user option \<Rightarrow> string \<Rightarrow> exn + bool \<times> string"
  tts_audio_from_text ::
    "string \<Rightarrow> payload \<Rightarrow> string \<Rightarrow> string \<Rightarrow> string \<Rightarrow> int \<Rightarrow> files \<Rightarrow> exn option \<times> files"
  convert_to_voice :: "string \<Rightarrow> files \<Rightarrow> (exn + string) \<times> files"
  reply_voice :: "message \<Rightarrow> string \<Rightarrow> payload \<Rightarrow> int \<Rightarrow> markup \<Rightarrow> exn option"
  reply_html :: "message \<Rightarrow> string \<Rightarrow> int \<Rightarrow> string option"
  msg_delete :: "message \<Rightarrow> string option"
  get_text_locale :: "tg_user option \<Rightarrow> string \<Rightarrow> string"
  get_user_settings :: "int \<Rightarrow> user_settings"
  get_user_voice_dir :: "int \<Rightarrow> string"
  ndarray_str :: "real list \<Rightarrow> string"

subsection \<open>The caption of a delivery\<close>

text \<open>
  \<^verbatim>\<open>if len(text) > MAX_CHARS_NUM: text = f"{text[:MAX_CHARS_NUM]}..."\<close>
  On a \<^verbatim>\<open>str\<close> the format is the slice itself; on an array it is its printed form.
\<close>

fun elide :: "env \<Rightarrow> payload \<Rightarrow> payload" where
  "elide E (Text s) =
     (if length s > MAX_CHARS_NUM E then Text (take (MAX_CHARS_NUM E) s @ ''...'') else Text s)"
| "elide E (Audio a) =
     (if length a > MAX_CHARS_NUM E
      then Text (ndarray_str E (take (MAX_CHARS_NUM E) a) @ ''...'') else Audio a)"

subsection \<open>Progress message and temporary files\<close>

text \<open>\<^verbatim>\<open>delete_progress_msg\<close>: a \<^verbatim>\<open>TelegramError\<close> of the deletion is logged.\<close>

definition delete_progress_msg :: "env \<Rightarrow> message \<Rightarrow> event list" where
  "delete_progress_msg E msg =
     (case msg_delete E msg of
        None \<Rightarrow> [MsgDelete msg None]
      | Some err \<Rightarrow>
          [MsgDelete msg (Some err), LoggerError ''Failed to delete progress message'' None])"

definition in_dir :: "string \<Rightarrow> string \<Rightarrow> bool" where
  "in_dir d p = prefix (d @ ''/'') p"

text \<open>Modelled from the spec: \<^verbatim>\<open>clear_dir\<close> of \<^verbatim>\<open>modules.bot_utils\<close> is missing from the
  sources; the specification says that the cleanup after a job is "clearing the entire
  shared directory".\<close>

definition clear_dir :: "string \<Rightarrow> files \<Rightarrow> files" where
  "clear_dir d fs = filter (\<lambda>p. \<not> in_dir d p) fs"

subsection \<open>Routing an outcome\<close>

definition failure_notice :: "string \<Rightarrow> string" where
  "failure_notice mention =
     ''Sorry '' @ mention @ '', your audio generation failed, please try again''"

text \<open>\<^verbatim>\<open>post_eval_gen_report_error\<close>. \<open>update\<close> is an Update object
  (\<^verbatim>\<open>start_gen_task\<close> has read its \<^verbatim>\<open>effective_user\<close>), so \<^verbatim>\<open>if update\<close> holds.\<close>

definition post_eval_gen_report_error ::
  "env \<Rightarrow> update \<Rightarrow> message \<Rightarrow> exn \<Rightarrow> files \<Rightarrow> event list \<times> files" where
  "post_eval_gen_report_error E upd progress_msg exc fs =
     ([ClearDir (RESULTS_PATH E),
       LoggerError ''Exception while handling run_gen_audio:'' (Some exc)]
      @ delete_progress_msg E progress_msg
      @ (case (effective_message upd, effective_user upd) of
           (Some m, Some u) \<Rightarrow>
             [ReplyHtml m (get_text_locale E (Some u) (failure_notice (mention_html u)))
                (message_id m)]
         | _ \<Rightarrow> []),
      clear_dir (RESULTS_PATH E) fs)"

definition sample_file :: "string \<Rightarrow> int \<Rightarrow> string" where
  "sample_file filename_result sample_ind =
     replace filename_result ''.wav'' (''_'' @ str_int sample_ind @ ''.wav'')"

definition regenerate_markup :: "env \<Rightarrow> tg_user option \<Rightarrow> markup" where
  "regenerate_markup E user =
     InlineKeyboardMarkup [[(get_text_locale E user ''Regenerate'', QUERY_PATTERN_RETRY E)]]"

text \<open>One iteration of the loop of \<^verbatim>\<open>post_eval_gen_task\<close>: the events, the exception that
  ended it or the reassigned \<open>text\<close>, and the files. \<^verbatim>\<open>open(voice_file, 'rb')\<close> needs the
  file; \<^verbatim>\<open>message.reply_voice\<close> and \<^verbatim>\<open>user.full_name\<close> need an object.\<close>

definition deliver_sample ::
  "env \<Rightarrow> tg_user option \<Rightarrow> string \<Rightarrow> message option \<Rightarrow> payload \<Rightarrow> int \<Rightarrow> files
     \<Rightarrow> event list \<times> (exn + payload) \<times> files" where
  "deliver_sample E user filename_result msg text sample_ind fs =
     (let sf = sample_file filename_result sample_ind in
      case convert_to_voice E sf fs of
        (Inl e, fs1) \<Rightarrow> ([ConvertToVoice sf (Inl e)], Inl e, fs1)
      | (Inr voice_file, fs1) \<Rightarrow>
          if voice_file \<notin> set fs1
          then ([ConvertToVoice sf (Inr voice_file), Open voice_file False],
                Inl (Exception ''FileNotFoundError''), fs1)
          else
            let opened = [ConvertToVoice sf (Inr voice_file), Open voice_file True];
                reply_markup = regenerate_markup E user;
                text1 = elide E text
            in case msg of
                 None \<Rightarrow> (opened, Inl (Exception ''AttributeError''), fs1)
               | Some m \<Rightarrow>
                   (case reply_voice E m voice_file text1 (message_id m) reply_markup of
                      Some e \<Rightarrow>
                        (opened @ [ReplyVoice m voice_file text1 (message_id m) reply_markup (Some e)],
                         Inl e, fs1)
                    | None \<Rightarrow>
                        (case user of
                           None \<Rightarrow>
                             (opened @ [ReplyVoice m voice_file text1 (message_id m) reply_markup None],
                              Inl (Exception ''AttributeError''), fs1)
                         | Some u \<Rightarrow>
                             (opened @ [ReplyVoice m voice_file text1 (message_id m) reply_markup None,
                                        AudioGenerationDone (full_name u) sample_ind text1],
                              Inr text1, fs1))))"

text \<open>\<^verbatim>\<open>for sample_ind in range(samples_num)\<close>: the first exception ends the loop.\<close>

fun deliver_samples ::
  "env \<Rightarrow> tg_user option \<Rightarrow> string \<Rightarrow> message option \<Rightarrow> payload \<Rightarrow> int list \<Rightarrow> files
     \<Rightarrow> event list \<times> (exn + payload) \<times> files" where
  "deliver_samples E user filename_result msg text [] fs = ([], Inr text, fs)"
| "deliver_samples E user filename_result msg text (i # inds) fs =
     (case deliver_sample E user filename_result msg text i fs of
        (evs, Inl e, fs1) \<Rightarrow> (evs, Inl e, fs1)
      | (evs, Inr text1, fs1) \<Rightarrow>
          (case deliver_samples E user filename_result msg text1 inds fs1 of
             (evs', r, fs2) \<Rightarrow> (evs @ evs', r, fs2)))"

text \<open>\<^verbatim>\<open>post_eval_gen_task\<close>: both the \<^verbatim>\<open>except\<close> and the \<^verbatim>\<open>else\<close> branch schedule the
  deletion of the progress message and clear the directory; the \<^verbatim>\<open>except\<close> branch then
  raises \<^verbatim>\<open>TelegramError("Audio generation Error") from e\<close>.\<close>

definition post_eval_gen_task ::
  "env \<Rightarrow> update \<Rightarrow> string \<Rightarrow> payload \<Rightarrow> int \<Rightarrow> message option \<Rightarrow> message \<Rightarrow> files
     \<Rightarrow> event list \<times> exn option \<times> files" where
  "post_eval_gen_task E upd filename_result text samples_num msg progress_msg fs =
     (case deliver_samples E (effective_user upd) filename_result msg text
             (py_range samples_num) fs of
        (evs, Inl e, fs1) \<Rightarrow>
          (evs @ [AppCreateTask (DeleteProgressMsg progress_msg), ClearDir (RESULTS_PATH E)],
           Some (RaisedFrom (TelegramError ''Audio generation Error'') e),
           clear_dir (RESULTS_PATH E) fs1)
      | (evs, Inr _, fs1) \<Rightarrow>
          (evs @ [AppCreateTask (DeleteProgressMsg progress_msg), ClearDir (RESULTS_PATH E)],
           None,
           clear_dir (RESULTS_PATH E) fs1))"

subsection \<open>The worker side\<close>

text \<open>The \<^verbatim>\<open>try\<close> block of \<^verbatim>\<open>run_gen_audio\<close>: the events, the exception that left it,
  the value of \<open>data\<close> afterwards (reassigned once the transcription has returned) and the
  files.\<close>

definition synthesize :: "env \<Rightarrow> job \<Rightarrow> payload \<Rightarrow> files \<Rightarrow> event list \<times> exn option \<times> files" where
  "synthesize E j d fs =
     (case tts_audio_from_text E (j_filename_result j) d (s_voice (j_settings j))
             (j_user_voices_dir j) (s_emotion (j_settings j)) (s_samples_num (j_settings j)) fs of
        (r, fs1) \<Rightarrow>
          ([TtsAudioFromText (j_filename_result j) d (s_voice (j_settings j))
              (j_user_voices_dir j) (s_emotion (j_settings j)) (s_samples_num (j_settings j)) r],
           r, fs1))"

definition gen_audio_try ::
  "env \<Rightarrow> job \<Rightarrow> files \<Rightarrow> event list \<times> exn option \<times> payload \<times> files" where
  "gen_audio_try E j fs =
     (case j_data j of
        Text s \<Rightarrow> (case synthesize E j (Text s) fs of (evs, r, fs1) \<Rightarrow> (evs, r, Text s, fs1))
      | Audio a \<Rightarrow>
          (case transcribe_voice E a of
             Inl e \<Rightarrow> ([TranscribeVoice a (Inl e)], Some e, Audio a, fs)
           | Inr s \<Rightarrow>
               (let u = effective_user (j_update j);
                    called = [TranscribeVoice a (Inr s), ValidateText u s (validate_text E u s)]
                in case validate_text E u s of
                     Inl e \<Rightarrow> (called, Some e, Text s, fs)
                   | Inr (val_res, val_err_msg) \<Rightarrow>
                       if \<not> val_res
                       then (called, Some (Exception (''text validation error: '' @ val_err_msg)),
                             Text s, fs)
                       else (case synthesize E j (Text s) fs of
                               (evs, r, fs1) \<Rightarrow> (called @ evs, r, Text s, fs1)))))"

text \<open>\<^verbatim>\<open>run_gen_audio\<close>: \<^verbatim>\<open>except Exception as e\<close> posts the report to the loop of the
  front thread; the \<^verbatim>\<open>return\<close> after the \<^verbatim>\<open>try\<close> statement is reached either way.\<close>

definition run_gen_audio :: "env \<Rightarrow> job \<Rightarrow> files \<Rightarrow> event list \<times> gen_result \<times> files" where
  "run_gen_audio E j fs =
     (case gen_audio_try E j fs of
        (evs, raised, d, fs1) \<Rightarrow>
          (evs @ (case raised of
                    None \<Rightarrow> []
                  | Some e \<Rightarrow>
                      [RunCoroutineThreadsafe
                         (HandlePostEvalGenReportError (j_update j) (j_progress_msg j) e) AppLoop]),
           \<lparr>r_update = j_update j, r_progress_msg = j_progress_msg j,
            r_filename_result = j_filename_result j, r_data = d,
            r_samples_num = s_samples_num (j_settings j)\<rparr>,
           fs1))"

text \<open>\<^verbatim>\<open>handle_post_eval_gen_report_error\<close>, the coroutine defined inside the handler.\<close>

definition handle_post_eval_gen_report_error :: "update \<Rightarrow> message \<Rightarrow> exn \<Rightarrow> event list" where
  "handle_post_eval_gen_report_error upd progress_msg exc =
     [AppCreateTask (PostEvalGenReportError upd progress_msg exc)]"

text \<open>\<^verbatim>\<open>eval_gen_task\<close>, the done callback of the future: \<^verbatim>\<open>future.result()\<close> raises or
  gives the tuple.\<close>

definition eval_gen_task :: "exn + gen_result \<Rightarrow> event list" where
  "eval_gen_task future_result =
     (case future_result of
        Inl e \<Rightarrow> [LoggerError ''Exception while handling eval_gen_task:'' (Some e)]
      | Inr r \<Rightarrow>
          [AppCreateTask
             (PostEvalGenTask (r_update r) (r_filename_result r) (r_data r) (r_samples_num r)
                (effective_message (r_update r)) (r_progress_msg r))])"

subsection \<open>The error handler\<close>

definition internal_error_notice :: "string \<Rightarrow> string" where
  "internal_error_notice mention =
     ''Sorry '' @ mention
       @ '', there has been a Server Internal Error when processing your command, please try again''"

text \<open>\<^verbatim>\<open>error_handler\<close>, the error handler this file defines for the Application (its
  registration is with the code that builds the Application). \<open>update\<close> is the Update that
  \<^verbatim>\<open>app.create_task(..., update=update)\<close> was given, \<open>context.error\<close> the exception that
  ended the task. A \<^verbatim>\<open>TelegramError\<close> of the reply is answered by a plain message to the
  chat; \<^verbatim>\<open>update.effective_chat\<close> is the chat of the effective message.\<close>

definition error_handler :: "env \<Rightarrow> update \<Rightarrow> exn \<Rightarrow> event list" where
  "error_handler E upd err =
     LoggerError ''Exception while handling an update:'' (Some err) #
     (case (effective_message upd, effective_user upd) of
        (Some m, Some u) \<Rightarrow>
          (let reply = get_text_locale E (Some u) (internal_error_notice (mention_html u))
           in case reply_html E m reply (message_id m) of
                None \<Rightarrow> [ReplyHtml m reply (message_id m)]
              | Some terr \<Rightarrow>
                  [ReplyHtmlRaised m reply (message_id m) terr, SendMessage (chat_id m) reply])
      | _ \<Rightarrow> [])"

subsection \<open>Submission\<close>

text \<open>\<^verbatim>\<open>'{}_{}.wav'.format(user.id, int(time.time()))\<close> under \<open>RESULTS_PATH\<close>; the voice
  handler builds its download path the same way with \<^verbatim>\<open>ogg\<close>.\<close>

definition result_filename :: "string \<Rightarrow> int \<Rightarrow> real \<Rightarrow> string \<Rightarrow> string" where
  "result_filename results_path uid now filetype =
     results_path @ ''/'' @ str_int uid @ ''_'' @ str_int (int_of_float now) @ ''.'' @ filetype"

text \<open>\<^verbatim>\<open>start_gen_task\<close> at clock reading \<open>now\<close>: \<^verbatim>\<open>user.id\<close> needs a user; the job goes to
  the loop of the worker thread and \<^verbatim>\<open>eval_gen_task\<close> becomes the done callback.\<close>

definition start_gen_task ::
  "env \<Rightarrow> real \<Rightarrow> update \<Rightarrow> payload \<Rightarrow> message \<Rightarrow> exn + event list" where
  "start_gen_task E now upd data progress_msg =
     (case effective_user upd of
        None \<Rightarrow> Inl (Exception ''AttributeError'')
      | Some user \<Rightarrow>
          Inr [RunCoroutineThreadsafe
                 (RunGenAudio
                    \<lparr>j_update = upd, j_progress_msg = progress_msg,
                     j_filename_result = result_filename (RESULTS_PATH E) (user_id user) now ''wav'',
                     j_settings = get_user_settings E (user_id user),
                     j_data = data,
                     j_user_voices_dir = get_user_voice_dir E (user_id user)\<rparr>)
                 TtsWorkerLoop,
               AddDoneCallback])"

subsection \<open>One job from submission to the end of its last task\<close>

text \<open>The coroutines an event list hands to a loop or to the Application.\<close>

fun spawned :: "event list \<Rightarrow> task list" where
  "spawned [] = []"
| "spawned (RunCoroutineThreadsafe t l # evs) = t # spawned evs"
| "spawned (AppCreateTask t # evs) = t # spawned evs"
| "spawned (ev # evs) = spawned evs"

text \<open>Running one task. When \<^verbatim>\<open>run_gen_audio\<close> returns, its future holds the returned
  tuple (no statement outside its \<^verbatim>\<open>try\<close> raises) and the done callback
  \<^verbatim>\<open>eval_gen_task\<close> is called with it. An exception that ends a task of the Application
  goes, with the update the task was created for, to the error handler of the
  Application, \<^verbatim>\<open>error_handler\<close>.\<close>

fun run_task :: "env \<Rightarrow> task \<Rightarrow> files \<Rightarrow> event list \<times> files" where
  "run_task E (RunGenAudio j) fs =
     (case run_gen_audio E j fs of (evs, r, fs1) \<Rightarrow> (evs @ eval_gen_task (Inr r), fs1))"
| "run_task E (HandlePostEvalGenReportError upd pm e) fs =
     (handle_post_eval_gen_report_error upd pm e, fs)"
| "run_task E (PostEvalGenReportError upd pm e) fs = post_eval_gen_report_error E upd pm e fs"
| "run_task E (PostEvalGenTask upd fn t n m pm) fs =
     (case post_eval_gen_task E upd fn t n m pm fs of
        (evs, None, fs1) \<Rightarrow> (evs, fs1)
      | (evs, Some err, fs1) \<Rightarrow> (evs @ error_handler E upd err, fs1))"
| "run_task E (DeleteProgressMsg m) fs = (delete_progress_msg E m, fs)"

text \<open>Every task creates only tasks that create fewer tasks in turn.\<close>

fun weight :: "task \<Rightarrow> nat" where
  "weight (RunGenAudio j) = 5"
| "weight (HandlePostEvalGenReportError upd pm e) = 2"
| "weight (PostEvalGenReportError upd pm e) = 1"
| "weight (PostEvalGenTask upd fn t n m pm) = 2"
| "weight (DeleteProgressMsg m) = 1"

text \<open>The tasks of a queue run to the end, one after the other in the order of their
  creation, each new task going to the back of the queue.\<close>

function run_all :: "env \<Rightarrow> task list \<Rightarrow> files \<Rightarrow> event list \<times> files" where
  "run_all E [] fs = ([], fs)"
| "run_all E (t # q) fs =
     (case run_task E t fs of
        (evs, fs1) \<Rightarrow>
          (case run_all E (q @ spawned evs) fs1 of (evs', fs2) \<Rightarrow> (evs @ evs', fs2)))"
  by pat_completeness auto
termination
proof (relation "measure (\<lambda>(E, q, fs). sum_list (map weight q))")
  show "wf (measure (\<lambda>(E, q, fs). sum_list (map weight q)))" by simp
next
  fix E :: env and t q fs evs fs1
  assume p: "(evs, fs1) = run_task E t fs"
  have app: "\<And>xs ys. spawned (xs @ ys) = spawned xs @ spawned ys"
  proof -
    fix xs ys show "spawned (xs @ ys) = spawned xs @ spawned ys"
      by (induction xs rule: spawned.induct) auto
  qed
  have one: "\<And>u fn msg tx i fs. spawned (fst (deliver_sample E u fn msg tx i fs)) = []"
    by (simp add: deliver_sample_def Let_def split: prod.splits sum.splits option.splits)
  have loop: "\<And>u fn msg tx inds fs. spawned (fst (deliver_samples E u fn msg tx inds fs)) = []"
  proof -
    fix u fn msg tx inds fs
    show "spawned (fst (deliver_samples E u fn msg tx inds fs)) = []"
    proof (induction inds arbitrary: tx fs)
      case Nil
      show ?case by simp
    next
      case (Cons i inds)
      obtain evs r fs1 where d: "deliver_sample E u fn msg tx i fs = (evs, r, fs1)"
        by (cases "deliver_sample E u fn msg tx i fs") auto
      have e: "spawned evs = []"
        using one [of u fn msg tx i fs] d by simp
      show ?case
      proof (cases r)
        case (Inl ex)
        with d e show ?thesis by simp
      next
        case (Inr t1)
        obtain evs' r' fs2 where d2: "deliver_samples E u fn msg t1 inds fs1 = (evs', r', fs2)"
          by (cases "deliver_samples E u fn msg t1 inds fs1") auto
        have "spawned evs' = []"
          using Cons.IH [of t1 fs1] d2 by simp
        with d d2 e Inr show ?thesis by (simp add: app)
      qed
    qed
  qed
  have "sum_list (map weight (spawned (fst (run_task E t fs)))) < weight t"
  proof (cases t)
    case (RunGenAudio j)
    have syn: "\<And>d evs r fs1. synthesize E j d fs = (evs, r, fs1) \<Longrightarrow> spawned evs = []"
      by (auto simp add: synthesize_def split: prod.splits)
    have tr: "spawned (fst (gen_audio_try E j fs)) = []"
      using syn
      by (auto simp add: gen_audio_try_def Let_def split: prod.splits sum.splits payload.splits)
    obtain evs0 raised d fs0 where g: "gen_audio_try E j fs = (evs0, raised, d, fs0)"
      by (cases "gen_audio_try E j fs") auto
    with tr have "spawned evs0 = []" by simp
    with g RunGenAudio show ?thesis
      by (cases raised) (simp_all add: run_gen_audio_def eval_gen_task_def app)
  next
    case (HandlePostEvalGenReportError upd pm e)
    then show ?thesis by (simp add: handle_post_eval_gen_report_error_def)
  next
    case (PostEvalGenReportError upd pm e)
    then show ?thesis
      by (simp add: post_eval_gen_report_error_def delete_progress_msg_def app
               split: option.splits)
  next
    case (PostEvalGenTask upd fn tx n m pm)
    obtain evs0 r fs0 where
      d: "deliver_samples E (effective_user upd) fn m tx (py_range n) fs = (evs0, r, fs0)"
      by (cases "deliver_samples E (effective_user upd) fn m tx (py_range n) fs") auto
    with loop [of "effective_user upd" fn m tx "py_range n" fs] have "spawned evs0 = []"
      by simp
    moreover have "\<And>err. spawned (error_handler E upd err) = []"
      by (simp add: error_handler_def Let_def split: option.splits)
    ultimately show ?thesis
      using d PostEvalGenTask
      by (cases r) (simp_all add: post_eval_gen_task_def app)
  next
    case (DeleteProgressMsg m)
    then show ?thesis by (simp add: delete_progress_msg_def split: option.splits)
  qed
  with p show "((E, q @ spawned evs, fs1), (E, t # q, fs)) \<in> measure (\<lambda>(E, q, fs). sum_list (map weight q))"
    by (cases "run_task E t fs") auto
qed

subsection \<open>Reading a trace\<close>

text \<open>The captions of the voice replies that were sent (the call returned).\<close>

fun captions :: "event list \<Rightarrow> payload list" where
  "captions [] = []"
| "captions (ReplyVoice m v c r k None # evs) = c # captions evs"
| "captions (ev # evs) = captions evs"

text \<open>The texts of the notices that were sent, with \<^verbatim>\<open>reply_html\<close> or
  \<^verbatim>\<open>bot.send_message\<close>.\<close>

fun notices :: "event list \<Rightarrow> string list" where
  "notices [] = []"
| "notices (ReplyHtml m txt r # evs) = txt # notices evs"
| "notices (SendMessage c txt # evs) = txt # notices evs"
| "notices (ev # evs) = notices evs"

text \<open>How often the deletion of a message was attempted.\<close>

fun deletions :: "message \<Rightarrow> event list \<Rightarrow> nat" where
  "deletions pm [] = 0"
| "deletions pm (MsgDelete m r # evs) = (if m = pm then 1 else 0) + deletions pm evs"
| "deletions pm (ev # evs) = deletions pm evs"

text \<open>The two routes of an outcome among the tasks that were created.\<close>

fun is_route :: "task \<Rightarrow> bool" where
  "is_route (PostEvalGenTask upd fn t n m pm) = True"
| "is_route (PostEvalGenReportError upd pm e) = True"
| "is_route t = False"

definition routes :: "event list \<Rightarrow> task list" where
  "routes evs = filter is_route (spawned evs)"

text \<open>The calls on the engines, in order.\<close>

datatype engine_call = Transcription | Validation | Synthesis

fun engine_calls :: "event list \<Rightarrow> engine_call list" where
  "engine_calls [] = []"
| "engine_calls (TranscribeVoice a r # evs) = Transcription # engine_calls evs"
| "engine_calls (ValidateText u s r # evs) = Validation # engine_calls evs"
| "engine_calls (TtsAudioFromText fn d v dir em n r # evs) = Synthesis # engine_calls evs"
| "engine_calls (ev # evs) = engine_calls evs"

text \<open>A hand-off is thread-safe when it goes through
  \<^verbatim>\<open>asyncio.run_coroutine_threadsafe\<close>; \<^verbatim>\<open>app.create_task\<close> is a method of the
  Application, which the front thread owns.\<close>

fun thread_safe_handoff :: "event \<Rightarrow> bool" where
  "thread_safe_handoff (RunCoroutineThreadsafe t l) = True"
| "thread_safe_handoff ev = False"

fun front_owned_call :: "event \<Rightarrow> bool" where
  "front_owned_call (AppCreateTask t) = True"
| "front_owned_call ev = False"

subsection \<open>Concrete collaborators\<close>

text \<open>An engine that writes one file per sample, a converter that writes the voice file
  next to its input and needs the input, and a transport that accepts every call.\<close>

definition env0 :: env where
  "env0 = \<lparr>MAX_CHARS_NUM = 5, RESULTS_PATH = ''/r'', QUERY_PATTERN_RETRY = ''retry'',
     transcribe_voice = (\<lambda>a. Inr ''hello world''),
     validate_text = (\<lambda>u s. Inr (True, [])),
     tts_audio_from_text =
       (\<lambda>fn d v dir em n fs. (None, fs @ map (sample_file fn) (py_range n))),
     convert_to_voice =
       (\<lambda>p fs. if p \<in> set fs then (Inr (p @ ''.ogg''), fs @ [p @ ''.ogg''])
                else (Inl (Exception ''no input file''), fs)),
     reply_voice = (\<lambda>m v c r k. None),
     reply_html = (\<lambda>m txt r. None),
     msg_delete = (\<lambda>m. None),
     get_text_locale = (\<lambda>u s. s),
     get_user_settings = (\<lambda>i. \<lparr>s_voice = ''v'', s_emotion = ''e'', s_samples_num = 3\<rparr>),
     get_user_voice_dir = (\<lambda>i. ''/voices''),
     ndarray_str = (\<lambda>a. ''[]'')\<rparr>"

text \<open>The same with an engine that raises, and with a transport that fails to send the
  second sample.\<close>

definition env_engine_fails :: env where
  "env_engine_fails =
     env0\<lparr>tts_audio_from_text :=
            (\<lambda>fn d v dir em n fs. (Some (Exception ''engine failure''), fs))\<rparr>"

definition env_send_fails :: env where
  "env_send_fails =
     env0\<lparr>reply_voice :=
            (\<lambda>m v c r k. if v = ''/r/7_100_1.wav.ogg'' then Some (TelegramError ''timed out'')
                          else None)\<rparr>"

definition update0 :: update where
  "update0 =
     \<lparr>effective_user = Some \<lparr>user_id = 7, mention_html = ''@u'', full_name = ''U''\<rparr>,
      effective_message = Some \<lparr>chat_id = 1, message_id = 10\<rparr>\<rparr>"

definition progress0 :: message where
  "progress0 = \<lparr>chat_id = 1, message_id = 11\<rparr>"

definition job0 :: job where
  "job0 =
     \<lparr>j_update = update0, j_progress_msg = progress0, j_filename_result = ''/r/7_100.wav'',
      j_settings = \<lparr>s_voice = ''v'', s_emotion = ''e'', s_samples_num = 3\<rparr>,
      j_data = Text ''hello world'', j_user_voices_dir = ''/voices''\<rparr>"

text \<open>A job of another user, submitted in the same second, with one sample.\<close>

definition update8 :: update where
  "update8 =
     \<lparr>effective_user = Some \<lparr>user_id = 8, mention_html = ''@w'', full_name = ''W''\<rparr>,
      effective_message = Some \<lparr>chat_id = 2, message_id = 20\<rparr>\<rparr>"

definition job8 :: job where
  "job8 =
     \<lparr>j_update = update8, j_progress_msg = \<lparr>chat_id = 2, message_id = 21\<rparr>,
      j_filename_result = ''/r/8_100.wav'',
      j_settings = \<lparr>s_voice = ''v'', s_emotion = ''e'', s_samples_num = 1\<rparr>,
      j_data = Text ''good day'', j_user_voices_dir = ''/voices''\<rparr>"

text \<open>The three samples of \<open>job0\<close> on disk; and a directory that holds a sample of
  \<open>job0\<close> and a sample of a job of user 8, with a file elsewhere.\<close>

definition files0 :: files where
  "files0 = [''/r/7_100_0.wav'', ''/r/7_100_1.wav'', ''/r/7_100_2.wav'']"

definition files_two_jobs :: files where
  "files_two_jobs = [''/r/7_100_0.wav'', ''/r/8_100_0.wav'', ''/home/notes.txt'']"

section \<open>Properties\<close>

declare str_nat.simps [simp del]

subsection \<open>Traces of concatenated event lists\<close>

lemma spawned_append: "spawned (xs @ ys) = spawned xs @ spawned ys"
  by (induction xs rule: spawned.induct) auto

lemma captions_append: "captions (xs @ ys) = captions xs @ captions ys"
  by (induction xs rule: captions.induct) auto

lemma engine_calls_append: "engine_calls (xs @ ys) = engine_calls xs @ engine_calls ys"
  by (induction xs rule: engine_calls.induct) auto

lemma notices_append: "notices (xs @ ys) = notices xs @ notices ys"
  by (induction xs rule: notices.induct) auto

lemma deletions_append: "deletions pm (xs @ ys) = deletions pm xs + deletions pm ys"
  by (induction pm xs rule: deletions.induct) auto

lemma set_clear_dir: "set (clear_dir d fs) = {p \<in> set fs. \<not> in_dir d p}"
  by (auto simp add: clear_dir_def)

subsection \<open>The delivery loop\<close>

lemma deliver_sample_no_clear:
  "deliver_sample E u fn msg t i fs = (evs, r, fs1) \<Longrightarrow> ClearDir d \<notin> set evs"
  by (auto simp add: deliver_sample_def Let_def split: prod.splits sum.splits option.splits if_splits)

lemma deliver_samples_no_clear:
  "deliver_samples E u fn msg t inds fs = (evs, r, fs1) \<Longrightarrow> ClearDir d \<notin> set evs"
proof (induction inds arbitrary: t fs evs r fs1)
  case Nil
  then show ?case by simp
next
  case (Cons i inds)
  obtain evs0 r0 fs0 where d: "deliver_sample E u fn msg t i fs = (evs0, r0, fs0)"
    by (cases "deliver_sample E u fn msg t i fs") auto
  then have e: "ClearDir d \<notin> set evs0" by (rule deliver_sample_no_clear)
  show ?case
  proof (cases r0)
    case (Inl ex)
    with d e Cons.prems show ?thesis by auto
  next
    case (Inr t1)
    obtain evs' r' fs2 where d2: "deliver_samples E u fn msg t1 inds fs0 = (evs', r', fs2)"
      by (cases "deliver_samples E u fn msg t1 inds fs0") auto
    then have "ClearDir d \<notin> set evs'" by (rule Cons.IH)
    with d d2 e Inr Cons.prems show ?thesis by auto
  qed
qed

lemma post_eval_gen_task_unfold:
  "deliver_samples E (effective_user upd) fn msg t (py_range n) fs = (evs, r, fs1) \<Longrightarrow>
   post_eval_gen_task E upd fn t n msg pm fs =
     (evs @ [AppCreateTask (DeleteProgressMsg pm), ClearDir (RESULTS_PATH E)],
      (case r of Inl e \<Rightarrow> Some (RaisedFrom (TelegramError ''Audio generation Error'') e)
               | Inr _ \<Rightarrow> None),
      clear_dir (RESULTS_PATH E) fs1)"
  by (cases r) (simp_all add: post_eval_gen_task_def)

text \<open>The loop creates no task and deletes no message; the coroutine around it schedules
  one deletion of the progress message, on either branch.\<close>

lemma deliver_sample_spawns_nothing:
  "deliver_sample E u fn msg t i fs = (evs, r, fs1) \<Longrightarrow> spawned evs = [] \<and> deletions pm evs = 0"
  by (auto simp add: deliver_sample_def Let_def split: prod.splits sum.splits option.splits if_splits)

lemma deliver_samples_spawns_nothing:
  "deliver_samples E u fn msg t inds fs = (evs, r, fs1) \<Longrightarrow> spawned evs = [] \<and> deletions pm evs = 0"
proof (induction inds arbitrary: t fs evs r fs1)
  case Nil
  then show ?case by auto
next
  case (Cons i inds)
  obtain evs0 r0 fs0 where d: "deliver_sample E u fn msg t i fs = (evs0, r0, fs0)"
    by (cases "deliver_sample E u fn msg t i fs") auto
  then have e: "spawned evs0 = [] \<and> deletions pm evs0 = 0" by (rule deliver_sample_spawns_nothing)
  show ?case
  proof (cases r0)
    case (Inl ex)
    with d e Cons.prems show ?thesis by auto
  next
    case (Inr t1)
    obtain evs' r' fs2 where d2: "deliver_samples E u fn msg t1 inds fs0 = (evs', r', fs2)"
      by (cases "deliver_samples E u fn msg t1 inds fs0") auto
    then have "spawned evs' = [] \<and> deletions pm evs' = 0" by (rule Cons.IH)
    with d d2 e Inr Cons.prems show ?thesis by (auto simp add: spawned_append deletions_append)
  qed
qed

lemma post_eval_gen_task_schedules_one_deletion:
  "spawned (fst (post_eval_gen_task E upd fn t n msg pm fs)) = [DeleteProgressMsg pm]
   \<and> deletions pm (fst (post_eval_gen_task E upd fn t n msg pm fs)) = 0"
proof -
  obtain evs r fs1 where
    d: "deliver_samples E (effective_user upd) fn msg t (py_range n) fs = (evs, r, fs1)"
    by (cases "deliver_samples E (effective_user upd) fn msg t (py_range n) fs") auto
  from d have "spawned evs = [] \<and> deletions pm evs = 0" by (rule deliver_samples_spawns_nothing)
  with post_eval_gen_task_unfold [OF d, where pm = pm] show ?thesis
    by (simp add: spawned_append deletions_append)
qed

lemma deliver_sample_Inr:
  "deliver_sample E u fn msg t i fs = (evs, Inr t1, fs1) \<Longrightarrow>
     t1 = elide E t \<and> captions evs = [elide E t]"
  by (auto simp add: deliver_sample_def Let_def split: prod.splits sum.splits option.splits if_splits)

lemma deliver_samples_Inr:
  "deliver_samples E u fn msg t inds fs = (evs, Inr t1, fs1) \<Longrightarrow>
     length (captions evs) = length inds"
proof (induction inds arbitrary: t fs evs fs1)
  case Nil
  then show ?case by simp
next
  case (Cons i inds)
  obtain evs0 r0 fs0 where d: "deliver_sample E u fn msg t i fs = (evs0, r0, fs0)"
    by (cases "deliver_sample E u fn msg t i fs") auto
  show ?case
  proof (cases r0)
    case (Inl ex)
    with d Cons.prems show ?thesis by simp
  next
    case (Inr t0)
    obtain evs' r' fs2 where d2: "deliver_samples E u fn msg t0 inds fs0 = (evs', r', fs2)"
      by (cases "deliver_samples E u fn msg t0 inds fs0") auto
    with d Inr Cons.prems have r: "r' = Inr t1" and e: "evs = evs0 @ evs'" by simp_all
    from d2 r have "length (captions evs') = length inds" using Cons.IH by simp
    moreover from d Inr have "captions evs0 = [elide E t]" using deliver_sample_Inr by blast
    ultimately show ?thesis using e by (simp add: captions_append)
  qed
qed

lemma deliver_samples_abort:
  "deliver_samples E u fn msg t pre fs = (evs1, Inr t1, fs1) \<Longrightarrow>
   deliver_sample E u fn msg t1 i fs1 = (evs2, Inl e, fs2) \<Longrightarrow>
   deliver_samples E u fn msg t (pre @ i # post) fs = (evs1 @ evs2, Inl e, fs2)"
proof (induction pre arbitrary: t fs evs1)
  case Nil
  then show ?case by simp
next
  case (Cons k pre)
  obtain evs0 r0 fs0 where d: "deliver_sample E u fn msg t k fs = (evs0, r0, fs0)"
    by (cases "deliver_sample E u fn msg t k fs") auto
  show ?case
  proof (cases r0)
    case (Inl ex)
    with d Cons.prems show ?thesis by simp
  next
    case (Inr t0)
    obtain evs' r' fs' where d2: "deliver_samples E u fn msg t0 pre fs0 = (evs', r', fs')"
      by (cases "deliver_samples E u fn msg t0 pre fs0") auto
    with d Inr Cons.prems(1) have r: "r' = Inr t1" "evs1 = evs0 @ evs'" "fs' = fs1" by simp_all
    from d2 r Cons.prems(2) have
      "deliver_samples E u fn msg t0 (pre @ i # post) fs0 = (evs' @ evs2, Inl e, fs2)"
      using Cons.IH by simp
    with d Inr r show ?thesis by simp
  qed
qed

lemma elide_idem_text: "elide E (elide E (Text s)) = elide E (Text s)"
  by simp

lemma deliver_sample_captions:
  "captions (fst (deliver_sample E u fn msg t i fs)) = [] \<or>
   captions (fst (deliver_sample E u fn msg t i fs)) = [elide E t]"
  by (simp add: deliver_sample_def Let_def split: prod.splits sum.splits option.splits)

lemma deliver_samples_fixed:
  "elide E t = t \<Longrightarrow> c \<in> set (captions (fst (deliver_samples E u fn msg t inds fs))) \<Longrightarrow> c = t"
proof (induction inds arbitrary: fs)
  case Nil
  then show ?case by simp
next
  case (Cons i inds)
  obtain evs r fs1 where d: "deliver_sample E u fn msg t i fs = (evs, r, fs1)"
    by (cases "deliver_sample E u fn msg t i fs") auto
  have c: "captions evs = [] \<or> captions evs = [t]"
    using deliver_sample_captions [of E u fn msg t i fs] d Cons.prems by simp
  show ?case
  proof (cases r)
    case (Inl e)
    with d c Cons.prems show ?thesis by auto
  next
    case (Inr t1)
    with d have "t1 = t" using deliver_sample_Inr Cons.prems by fastforce
    with d Inr c Cons.IH [OF Cons.prems(1), of fs1] Cons.prems(2) show ?thesis
      by (auto simp add: captions_append split: prod.splits)
  qed
qed

lemma deliver_samples_captions:
  "c \<in> set (captions (fst (deliver_samples E u fn msg (Text s) inds fs))) \<Longrightarrow> c = elide E (Text s)"
proof (cases inds)
  case Nil
  assume "c \<in> set (captions (fst (deliver_samples E u fn msg (Text s) inds fs)))"
  with Nil show ?thesis by simp
next
  case (Cons i inds')
  assume a: "c \<in> set (captions (fst (deliver_samples E u fn msg (Text s) inds fs)))"
  obtain evs r fs1 where d: "deliver_sample E u fn msg (Text s) i fs = (evs, r, fs1)"
    by (cases "deliver_sample E u fn msg (Text s) i fs") auto
  have c: "captions evs = [] \<or> captions evs = [elide E (Text s)]"
    using deliver_sample_captions [of E u fn msg "Text s" i fs] d by simp
  show ?thesis
  proof (cases r)
    case (Inl e)
    with d c a Cons show ?thesis by auto
  next
    case (Inr t1)
    with d have t1: "t1 = elide E (Text s)" using deliver_sample_Inr by fastforce
    have "elide E t1 = t1" unfolding t1 by (rule elide_idem_text)
    from deliver_samples_fixed [OF this, of _ u fn msg inds' fs1] d Inr c a Cons t1 show ?thesis
      by (auto simp add: captions_append split: prod.splits)
  qed
qed

subsection \<open>The worker's try block and the progress message\<close>

lemma synthesize_calls:
  "synthesize E j d fs = (evs, r, fs1) \<Longrightarrow> spawned evs = [] \<and> engine_calls evs = [Synthesis]"
  by (auto simp add: synthesize_def split: prod.splits)

lemma gen_audio_try_calls:
  "gen_audio_try E j fs = (evs, raised, d, fs1) \<Longrightarrow>
     spawned evs = [] \<and> distinct (engine_calls evs)"
  by (auto simp add: gen_audio_try_def Let_def spawned_append engine_calls_append
           dest!: synthesize_calls
           split: prod.splits sum.splits payload.splits if_splits)

text \<open>The exceptions that leave the \<^verbatim>\<open>try\<close> block: one of the transcription, one of the
  validation of the transcription, the one raised when the validation rejects, and one
  of the synthesis.\<close>

lemma transcription_raises:
  "j_data j = Audio a \<Longrightarrow> transcribe_voice E a = Inl e \<Longrightarrow>
   gen_audio_try E j fs = ([TranscribeVoice a (Inl e)], Some e, Audio a, fs)"
  by (simp add: gen_audio_try_def)

lemma validation_raises:
  "j_data j = Audio a \<Longrightarrow> transcribe_voice E a = Inr s \<Longrightarrow>
   validate_text E (effective_user (j_update j)) s = Inl e \<Longrightarrow>
   gen_audio_try E j fs =
     ([TranscribeVoice a (Inr s), ValidateText (effective_user (j_update j)) s (Inl e)],
      Some e, Text s, fs)"
  by (simp add: gen_audio_try_def)

lemma validation_rejects:
  "j_data j = Audio a \<Longrightarrow> transcribe_voice E a = Inr s \<Longrightarrow>
   validate_text E (effective_user (j_update j)) s = Inr (False, val_err_msg) \<Longrightarrow>
   gen_audio_try E j fs =
     ([TranscribeVoice a (Inr s),
       ValidateText (effective_user (j_update j)) s (Inr (False, val_err_msg))],
      Some (Exception (''text validation error: '' @ val_err_msg)), Text s, fs)"
  by (simp add: gen_audio_try_def)

lemma synthesis_raises:
  "j_data j = Text s \<Longrightarrow> synthesize E j (Text s) fs = (evs, Some e, fs1) \<Longrightarrow>
   gen_audio_try E j fs = (evs, Some e, Text s, fs1)"
  by (simp add: gen_audio_try_def)

lemma synthesis_raises_after_transcription:
  "j_data j = Audio a \<Longrightarrow> transcribe_voice E a = Inr s \<Longrightarrow>
   validate_text E (effective_user (j_update j)) s = Inr (True, val_err_msg) \<Longrightarrow>
   synthesize E j (Text s) fs = (evs, Some e, fs1) \<Longrightarrow>
   gen_audio_try E j fs =
     ([TranscribeVoice a (Inr s),
       ValidateText (effective_user (j_update j)) s (Inr (True, val_err_msg))] @ evs,
      Some e, Text s, fs1)"
  by (simp add: gen_audio_try_def)

text \<open>What a run of the worker creates: the delivery in every case, and the report before
  it when the \<^verbatim>\<open>try\<close> block raised.\<close>

lemma post_eval_gen_report_error_deletes_once:
  "deletions pm (fst (post_eval_gen_report_error E upd pm e fs)) = 1
   \<and> spawned (fst (post_eval_gen_report_error E upd pm e fs)) = []"
  by (simp add: post_eval_gen_report_error_def delete_progress_msg_def deletions_append
        spawned_append split: option.splits)

lemma tasks_of_worker_run:
  "gen_audio_try E j fs = (evs, raised, d, fs1) \<Longrightarrow>
   spawned (fst (run_task E (RunGenAudio j) fs)) =
     (case raised of
        None \<Rightarrow> []
      | Some e \<Rightarrow> [HandlePostEvalGenReportError (j_update j) (j_progress_msg j) e])
     @ [PostEvalGenTask (j_update j) (j_filename_result j) d (s_samples_num (j_settings j))
          (effective_message (j_update j)) (j_progress_msg j)]"
  using gen_audio_try_calls [of E j fs evs raised d fs1]
  by (cases raised) (simp_all add: run_gen_audio_def eval_gen_task_def spawned_append)

lemma notices_delete_progress_msg: "notices (delete_progress_msg E pm) = []"
  by (simp add: delete_progress_msg_def split: option.splits)

lemma deletions_delete_progress_msg: "deletions pm (delete_progress_msg E pm) = 1"
  by (simp add: delete_progress_msg_def split: option.splits)

subsection \<open>Decimal numerals\<close>

lemma digit_code: "d < 10 \<Longrightarrow> (of_char (digit d) :: nat) = 48 + d"
proof -
  assume "d < 10"
  then have "d \<in> {0, 1, 2, 3, 4, 5, 6, 7, 8, 9}" by auto
  then show ?thesis by (auto simp add: digit_def)
qed

lemma digit_inj: "a < 10 \<Longrightarrow> b < 10 \<Longrightarrow> digit a = digit b \<Longrightarrow> a = b"
proof -
  assume a: "a < 10" and b: "b < 10" and e: "digit a = digit b"
  from e have "(of_char (digit a) :: nat) = of_char (digit b)" by simp
  with a b show ?thesis by (simp add: digit_code)
qed

lemma digit_not_sep: "d < 10 \<Longrightarrow> digit d \<noteq> CHR ''_'' \<and> digit d \<noteq> CHR ''-''"
proof -
  assume "d < 10"
  then have "d \<in> {0, 1, 2, 3, 4, 5, 6, 7, 8, 9}" by auto
  then show ?thesis by (auto simp add: digit_def)
qed

lemma str_nat_not_Nil: "str_nat n \<noteq> []"
  by (subst str_nat.simps) simp

lemma str_nat_chars: "c \<in> set (str_nat n) \<Longrightarrow> c \<noteq> CHR ''_'' \<and> c \<noteq> CHR ''-''"
proof (induction n rule: str_nat.induct)
  case (1 n)
  show ?case
  proof (cases "n < 10")
    case True
    with "1.prems" digit_not_sep [of n] show ?thesis
      by (simp add: str_nat.simps [of n])
  next
    case False
    with "1.prems" "1.IH" digit_not_sep [of "n mod 10"] show ?thesis
      by (auto simp add: str_nat.simps [of n])
  qed
qed

lemma str_nat_inj: "str_nat n = str_nat m \<Longrightarrow> n = m"
proof (induction n arbitrary: m rule: str_nat.induct)
  case (1 n)
  show ?case
  proof (cases "n < 10")
    case n: True
    show ?thesis
    proof (cases "m < 10")
      case True
      with n "1.prems" show ?thesis
        by (simp add: str_nat.simps [of n] str_nat.simps [of m] digit_inj)
    next
      case False
      with n "1.prems" str_nat_not_Nil [of "m div 10"] show ?thesis
        by (simp add: str_nat.simps [of n] str_nat.simps [of m] Cons_eq_append_conv)
    qed
  next
    case n: False
    show ?thesis
    proof (cases "m < 10")
      case True
      with n "1.prems" str_nat_not_Nil [of "n div 10"] show ?thesis
        by (simp add: str_nat.simps [of n] str_nat.simps [of m] append_eq_Cons_conv)
    next
      case False
      with n "1.prems" have a: "str_nat (n div 10) = str_nat (m div 10)"
        and b: "digit (n mod 10) = digit (m mod 10)"
        by (simp_all add: str_nat.simps [of n] str_nat.simps [of m])
      from a n "1.IH" have "n div 10 = m div 10" by simp
      moreover from b have "n mod 10 = m mod 10" by (simp add: digit_inj)
      ultimately show ?thesis by (metis div_mult_mod_eq)
    qed
  qed
qed

lemma str_int_chars: "CHR ''_'' \<notin> set (str_int i)"
  using str_nat_chars by (auto simp add: str_int_def)

lemma str_int_inj: "str_int i = str_int k \<Longrightarrow> i = k"
proof -
  assume a: "str_int i = str_int k"
  have hd: "\<And>n. hd (str_nat n) \<noteq> CHR ''-''"
    using str_nat_chars str_nat_not_Nil by (metis hd_in_set)
  have ne: "\<And>n. str_nat n \<noteq> CHR ''-'' # str_nat m" for m
    using hd by (metis list.sel(1))
  show ?thesis
  proof (cases "i < 0")
    case i: True
    show ?thesis
    proof (cases "k < 0")
      case True
      with i a have "nat (- i) = nat (- k)" by (simp add: str_int_def str_nat_inj)
      with i True show ?thesis by simp
    next
      case False
      with i a ne show ?thesis by (simp add: str_int_def) metis
    qed
  next
    case i: False
    show ?thesis
    proof (cases "k < 0")
      case True
      with i a ne show ?thesis by (simp add: str_int_def)
    next
      case False
      with i a have "nat i = nat k" by (simp add: str_int_def str_nat_inj)
      with i False show ?thesis by simp
    qed
  qed
qed

section \<open>The claims\<close>

subsection \<open>C1: one route per job\<close>

text \<open>
  C1 says that for every job exactly one of the two routes is taken: the fan-out delivery
  (\<^verbatim>\<open>post_eval_gen_task\<close>) or the failure report (\<^verbatim>\<open>post_eval_gen_report_error\<close>),
  never both. For \<open>job0\<close> with an engine that raises, both are created: the handler of
  \<^verbatim>\<open>run_gen_audio\<close> posts the report, and the \<^verbatim>\<open>return\<close> after the \<^verbatim>\<open>try\<close> statement
  hands the tuple to \<^verbatim>\<open>eval_gen_task\<close>, whose \<^verbatim>\<open>else\<close> branch creates the delivery.
\<close>

theorem both_routes_on_engine_failure:
  "routes (fst (run_all env_engine_fails [RunGenAudio job0] [])) =
     [PostEvalGenTask update0 ''/r/7_100.wav'' (Text ''hello world'') 3
        (effective_message update0) progress0,
      PostEvalGenReportError update0 progress0 (Exception ''engine failure'')]"
  by code_simp

subsection \<open>C2: the progress message is removed once\<close>

text \<open>
  C2 says that the deletion of the progress message is attempted exactly once for every
  job, on every outcome. For \<open>job0\<close> with an engine that raises it is attempted twice: once
  by the failure report and once by the task that the delivery route creates.
\<close>

theorem progress_message_deleted_twice_on_engine_failure:
  "deletions progress0 (fst (run_all env_engine_fails [RunGenAudio job0] [])) = 2"
  by code_simp

subsection \<open>C3: what the cleanup removes\<close>

text \<open>
  C3 says that the cleanup of a job removes exactly the files under that job's own output
  path, and never a file of another pending job. The cleanup is
  \<^verbatim>\<open>clear_dir(RESULTS_PATH)\<close>: with a sample of a job of user 8 in the directory, the
  cleanup after the delivery of the job of user 7 removes it, although it is none of the
  sample files of that job.
\<close>

theorem cleanup_deletes_file_of_other_job:
  "''/r/8_100_0.wav'' \<in> set files_two_jobs
   \<and> sample_file (result_filename ''/r'' 8 100 ''wav'') 0 = ''/r/8_100_0.wav''
   \<and> result_filename ''/r'' 7 100 ''wav'' = ''/r/7_100.wav''
   \<and> ''/r/8_100_0.wav'' \<notin> set (map (sample_file ''/r/7_100.wav'') (py_range 1))
   \<and> ''/r/8_100_0.wav''
       \<notin> set (snd (snd (post_eval_gen_task env0 update0 ''/r/7_100.wav'' (Text ''hello'') 1
                           (effective_message update0) progress0 files_two_jobs)))"
proof -
  have a: "''/r/8_100_0.wav'' \<in> set files_two_jobs" by (simp add: files_two_jobs_def)
  have b: "result_filename ''/r'' 8 100 ''wav'' = ''/r/8_100.wav''"
    by (simp add: result_filename_def int_of_float_def str_int_def str_nat.simps digit_def)
  have c: "sample_file ''/r/8_100.wav'' 0 = ''/r/8_100_0.wav''" by code_simp
  have d: "result_filename ''/r'' 7 100 ''wav'' = ''/r/7_100.wav''"
    by (simp add: result_filename_def int_of_float_def str_int_def str_nat.simps digit_def)
  have e: "''/r/8_100_0.wav'' \<notin> set (map (sample_file ''/r/7_100.wav'') (py_range 1))"
    by code_simp
  have f: "''/r/8_100_0.wav''
       \<notin> set (snd (snd (post_eval_gen_task env0 update0 ''/r/7_100.wav'' (Text ''hello'') 1
                           (effective_message update0) progress0 files_two_jobs)))"
    by code_simp
  from a b c d e f show ?thesis by simp
qed

text \<open>
  Such a file can be there: when \<open>job8\<close> is posted before \<open>job0\<close> has finished, the worker
  runs it next and the engine writes its sample; the delivery of \<open>job0\<close>, created before
  that of \<open>job8\<close>, then clears the directory, and the conversion of the sample of \<open>job8\<close>
  finds no input: user 8 receives no voice reply.
\<close>

lemma cleanup_of_first_job_breaks_second:
  "ConvertToVoice ''/r/8_100_0.wav'' (Inl (Exception ''no input file''))
     \<in> set (fst (run_all env0 [RunGenAudio job0, RunGenAudio job8] []))
   \<and> captions (fst (run_all env0 [RunGenAudio job0, RunGenAudio job8] [])) =
       [Text ''hello...'', Text ''hello...'', Text ''hello...'']"
  by code_simp

text \<open>
  C3 as amended: the cleanup of either route clears the whole shared directory. The events
  of \<^verbatim>\<open>post_eval_gen_task\<close> are those of its delivery loop followed by the scheduling of
  the deletion of the progress message and one \<^verbatim>\<open>clear_dir(RESULTS_PATH)\<close>, which the loop
  itself never calls; afterwards the files are those that the loop left outside
  \<open>RESULTS_PATH\<close>, whichever job the others belonged to; and after
  \<^verbatim>\<open>post_eval_gen_report_error\<close> the files are those that were outside \<open>RESULTS_PATH\<close>.
\<close>

theorem cleanup_clears_results_directory:
  "fst (post_eval_gen_task E upd fn t n msg pm fs) =
     fst (deliver_samples E (effective_user upd) fn msg t (py_range n) fs)
       @ [AppCreateTask (DeleteProgressMsg pm), ClearDir (RESULTS_PATH E)]
   \<and> ClearDir (RESULTS_PATH E)
       \<notin> set (fst (deliver_samples E (effective_user upd) fn msg t (py_range n) fs))
   \<and> set (snd (snd (post_eval_gen_task E upd fn t n msg pm fs))) =
       {p \<in> set (snd (snd (deliver_samples E (effective_user upd) fn msg t (py_range n) fs))).
          \<not> in_dir (RESULTS_PATH E) p}
   \<and> set (snd (post_eval_gen_report_error E upd pm exc fs)) =
       {p \<in> set fs. \<not> in_dir (RESULTS_PATH E) p}"
proof -
  obtain evs r fs1 where
    d: "deliver_samples E (effective_user upd) fn msg t (py_range n) fs = (evs, r, fs1)"
    by (cases "deliver_samples E (effective_user upd) fn msg t (py_range n) fs") auto
  from d have "ClearDir (RESULTS_PATH E) \<notin> set evs" by (rule deliver_samples_no_clear)
  with d post_eval_gen_task_unfold [OF d, where pm = pm] show ?thesis
    by (simp add: set_clear_dir post_eval_gen_report_error_def)
qed

subsection \<open>C4: a failure inside the worker\<close>

text \<open>
  C4 says that an exception of the transcription, of the validation of the transcription
  or of the synthesis is caught, turned into a failure outcome and reported to the
  requester as a single generic failure notice, with nothing retried. For \<open>job0\<close> with an
  engine that raises, the requester gets two notices. The exception is caught and the
  report sends its notice; but \<^verbatim>\<open>run_gen_audio\<close> goes on to return the tuple of a
  success, so the delivery runs too, finds no sample to convert and ends with
  \<^verbatim>\<open>TelegramError("Audio generation Error")\<close>, and the error handler answers that one
  with the notice of an internal error.
\<close>

theorem two_notices_on_engine_failure:
  "notices (fst (run_all env_engine_fails [RunGenAudio job0] [])) =
     [''Sorry @u, there has been a Server Internal Error when processing your command, please try again'',
      ''Sorry @u, your audio generation failed, please try again'']
   \<and> r_data (fst (snd (run_gen_audio env_engine_fails job0 []))) = Text ''hello world''
   \<and> fst (snd (post_eval_gen_task env_engine_fails update0 ''/r/7_100.wav''
                  (Text ''hello world'') 3 (effective_message update0) progress0 [])) =
       Some (RaisedFrom (TelegramError ''Audio generation Error'') (Exception ''no input file''))"
  by code_simp

text \<open>
  What holds of the report alone: when the \<^verbatim>\<open>try\<close> block of \<^verbatim>\<open>run_gen_audio\<close> is left
  by an exception \<open>e\<close>, and the update has a message and a user, then \<^verbatim>\<open>run_gen_audio\<close>
  returns its tuple; it has posted exactly one report, carrying \<open>e\<close>, to the loop of the
  front thread; no engine was called twice; the posted coroutine creates
  \<^verbatim>\<open>post_eval_gen_report_error\<close>, which sends exactly one notice, and the text of that
  notice is made of the mention of the user alone, whatever \<open>e\<close> is.
\<close>

lemma worker_failure_reported:
  assumes "gen_audio_try E j fs = (evs, Some e, d, fs1)"
      and "effective_message (j_update j) = Some m"
      and "effective_user (j_update j) = Some u"
  shows "run_gen_audio E j fs =
           (evs @ [RunCoroutineThreadsafe
                     (HandlePostEvalGenReportError (j_update j) (j_progress_msg j) e) AppLoop],
            \<lparr>r_update = j_update j, r_progress_msg = j_progress_msg j,
             r_filename_result = j_filename_result j, r_data = d,
             r_samples_num = s_samples_num (j_settings j)\<rparr>,
            fs1)
         \<and> spawned evs = []
         \<and> distinct (engine_calls evs)
         \<and> handle_post_eval_gen_report_error (j_update j) (j_progress_msg j) e =
             [AppCreateTask (PostEvalGenReportError (j_update j) (j_progress_msg j) e)]
         \<and> notices (fst (post_eval_gen_report_error E (j_update j) (j_progress_msg j) e fs2)) =
             [get_text_locale E (Some u) (failure_notice (mention_html u))]"
proof -
  from assms(1) have "spawned evs = [] \<and> distinct (engine_calls evs)"
    by (rule gen_audio_try_calls)
  moreover from assms(1) have "run_gen_audio E j fs =
           (evs @ [RunCoroutineThreadsafe
                     (HandlePostEvalGenReportError (j_update j) (j_progress_msg j) e) AppLoop],
            \<lparr>r_update = j_update j, r_progress_msg = j_progress_msg j,
             r_filename_result = j_filename_result j, r_data = d,
             r_samples_num = s_samples_num (j_settings j)\<rparr>,
            fs1)"
    by (simp add: run_gen_audio_def)
  moreover from assms(2,3) have
    "notices (fst (post_eval_gen_report_error E (j_update j) (j_progress_msg j) e fs2)) =
             [get_text_locale E (Some u) (failure_notice (mention_html u))]"
    by (simp add: post_eval_gen_report_error_def notices_append notices_delete_progress_msg)
  ultimately show ?thesis
    by (simp add: handle_post_eval_gen_report_error_def)
qed

lemma worker_failure_reported_at_job0:
  "fst (run_gen_audio env_engine_fails job0 []) =
     [TtsAudioFromText ''/r/7_100.wav'' (Text ''hello world'') ''v'' ''/voices'' ''e'' 3
        (Some (Exception ''engine failure'')),
      RunCoroutineThreadsafe
        (HandlePostEvalGenReportError update0 progress0 (Exception ''engine failure'')) AppLoop]
   \<and> notices (fst (post_eval_gen_report_error env_engine_fails update0 progress0
                     (Exception ''engine failure'') [])) =
       [''Sorry @u, your audio generation failed, please try again'']"
proof -
  have a: "gen_audio_try env_engine_fails job0 [] =
             ([TtsAudioFromText ''/r/7_100.wav'' (Text ''hello world'') ''v'' ''/voices'' ''e'' 3
                 (Some (Exception ''engine failure''))],
              Some (Exception ''engine failure''), Text ''hello world'', [])"
    by code_simp
  have b: "effective_message (j_update job0) = Some \<lparr>chat_id = 1, message_id = 10\<rparr>"
    by (simp add: job0_def update0_def)
  have c: "effective_user (j_update job0) =
             Some \<lparr>user_id = 7, mention_html = ''@u'', full_name = ''U''\<rparr>"
    by (simp add: job0_def update0_def)
  have d: "j_update job0 = update0" "j_progress_msg job0 = progress0"
    by (simp_all add: job0_def)
  have e: "get_text_locale env_engine_fails = (\<lambda>u s. s)"
    by (simp add: env_engine_fails_def env0_def)
  from worker_failure_reported [OF a b c, of "[]"] show ?thesis
    by (simp add: d e failure_notice_def)
qed

subsection \<open>C5: the caption\<close>

text \<open>
  C5: every voice reply that \<^verbatim>\<open>post_eval_gen_task\<close> has sent for a text \<open>s\<close> carries the
  caption \<open>s\<close> when \<open>s\<close> has at most \<open>MAX_CHARS_NUM\<close> characters, and its first
  \<open>MAX_CHARS_NUM\<close> characters followed by three full stops when it is longer.
\<close>

theorem caption_of_delivery:
  "captions (fst (post_eval_gen_task E upd fn (Text s) n msg pm fs)) =
     replicate (length (captions (fst (post_eval_gen_task E upd fn (Text s) n msg pm fs))))
       (Text (if length s \<le> MAX_CHARS_NUM E then s else take (MAX_CHARS_NUM E) s @ ''...''))"
proof -
  let ?d = "deliver_samples E (effective_user upd) fn msg (Text s) (py_range n) fs"
  have e: "captions (fst (post_eval_gen_task E upd fn (Text s) n msg pm fs)) = captions (fst ?d)"
    by (simp add: post_eval_gen_task_def captions_append split: prod.splits sum.splits)
  have t: "elide E (Text s) = Text (if length s \<le> MAX_CHARS_NUM E then s else take (MAX_CHARS_NUM E) s @ ''...'')"
    by simp
  have "\<forall>c \<in> set (captions (fst ?d)). c = elide E (Text s)"
    using deliver_samples_captions by blast
  then have "replicate (length (captions (fst ?d))) (elide E (Text s)) = captions (fst ?d)"
    by (rule replicate_length_same)
  with e t show ?thesis by simp
qed

subsection \<open>C6: a delivery that fails\<close>

text \<open>
  C6: let the sample indices be \<open>pre @ i # post\<close>, let the deliveries of \<open>pre\<close> go through
  and let the delivery of sample \<open>i\<close> raise \<open>e\<close>. Then the events of
  \<^verbatim>\<open>post_eval_gen_task\<close> are those of the deliveries of \<open>pre\<close> (one sent reply each, none
  taken back), those of the failed delivery, the scheduling of the deletion of the
  progress message and the clearing of the directory, in this order, with no event for a
  sample of \<open>post\<close>; the scheduled task attempts the deletion once; and the coroutine ends
  with \<^verbatim>\<open>TelegramError("Audio generation Error")\<close> raised from \<open>e\<close>.
\<close>

theorem partial_fan_out_failure:
  assumes "py_range n = pre @ i # post"
      and "deliver_samples E (effective_user upd) fn msg t pre fs = (evs1, Inr t1, fs1)"
      and "deliver_sample E (effective_user upd) fn msg t1 i fs1 = (evs2, Inl e, fs2)"
  shows "post_eval_gen_task E upd fn t n msg pm fs =
           (evs1 @ evs2 @ [AppCreateTask (DeleteProgressMsg pm), ClearDir (RESULTS_PATH E)],
            Some (RaisedFrom (TelegramError ''Audio generation Error'') e),
            clear_dir (RESULTS_PATH E) fs2)
         \<and> length (captions evs1) = length pre
         \<and> deletions pm (fst (run_task E (DeleteProgressMsg pm) fs3)) = 1"
proof -
  from assms(2,3) have
    "deliver_samples E (effective_user upd) fn msg t (pre @ i # post) fs = (evs1 @ evs2, Inl e, fs2)"
    by (rule deliver_samples_abort)
  with assms(1) have
    "deliver_samples E (effective_user upd) fn msg t (py_range n) fs = (evs1 @ evs2, Inl e, fs2)"
    by simp
  from post_eval_gen_task_unfold [OF this, where pm = pm]
  have "post_eval_gen_task E upd fn t n msg pm fs =
           (evs1 @ evs2 @ [AppCreateTask (DeleteProgressMsg pm), ClearDir (RESULTS_PATH E)],
            Some (RaisedFrom (TelegramError ''Audio generation Error'') e),
            clear_dir (RESULTS_PATH E) fs2)"
    by simp
  moreover from assms(2) have "length (captions evs1) = length pre"
    by (rule deliver_samples_Inr)
  ultimately show ?thesis by (simp add: deletions_delete_progress_msg)
qed

theorem partial_fan_out_failure_witness:
  "post_eval_gen_task env_send_fails update0 ''/r/7_100.wav'' (Text ''hello world'') 3
     (effective_message update0) progress0 files0 =
     ([ConvertToVoice ''/r/7_100_0.wav'' (Inr ''/r/7_100_0.wav.ogg''),
       Open ''/r/7_100_0.wav.ogg'' True,
       ReplyVoice \<lparr>chat_id = 1, message_id = 10\<rparr> ''/r/7_100_0.wav.ogg'' (Text ''hello...'') 10
         (InlineKeyboardMarkup [[(''Regenerate'', ''retry'')]]) None,
       AudioGenerationDone ''U'' 0 (Text ''hello...''),
       ConvertToVoice ''/r/7_100_1.wav'' (Inr ''/r/7_100_1.wav.ogg''),
       Open ''/r/7_100_1.wav.ogg'' True,
       ReplyVoice \<lparr>chat_id = 1, message_id = 10\<rparr> ''/r/7_100_1.wav.ogg'' (Text ''hello...'') 10
         (InlineKeyboardMarkup [[(''Regenerate'', ''retry'')]]) (Some (TelegramError ''timed out'')),
       AppCreateTask (DeleteProgressMsg progress0), ClearDir ''/r''],
      Some (RaisedFrom (TelegramError ''Audio generation Error'') (TelegramError ''timed out'')),
      [])"
proof -
  have a: "py_range 3 = [0] @ 1 # [2]" by code_simp
  have b: "deliver_samples env_send_fails (effective_user update0) ''/r/7_100.wav''
             (effective_message update0) (Text ''hello world'') [0] files0 =
           ([ConvertToVoice ''/r/7_100_0.wav'' (Inr ''/r/7_100_0.wav.ogg''),
             Open ''/r/7_100_0.wav.ogg'' True,
             ReplyVoice \<lparr>chat_id = 1, message_id = 10\<rparr> ''/r/7_100_0.wav.ogg''
               (Text ''hello...'') 10 (InlineKeyboardMarkup [[(''Regenerate'', ''retry'')]]) None,
             AudioGenerationDone ''U'' 0 (Text ''hello...'')],
            Inr (Text ''hello...''),
            [''/r/7_100_0.wav'', ''/r/7_100_1.wav'', ''/r/7_100_2.wav'', ''/r/7_100_0.wav.ogg''])"
    by code_simp
  have c: "deliver_sample env_send_fails (effective_user update0) ''/r/7_100.wav''
             (effective_message update0) (Text ''hello...'') 1
             [''/r/7_100_0.wav'', ''/r/7_100_1.wav'', ''/r/7_100_2.wav'', ''/r/7_100_0.wav.ogg''] =
           ([ConvertToVoice ''/r/7_100_1.wav'' (Inr ''/r/7_100_1.wav.ogg''),
             Open ''/r/7_100_1.wav.ogg'' True,
             ReplyVoice \<lparr>chat_id = 1, message_id = 10\<rparr> ''/r/7_100_1.wav.ogg''
               (Text ''hello...'') 10 (InlineKeyboardMarkup [[(''Regenerate'', ''retry'')]])
               (Some (TelegramError ''timed out''))],
            Inl (TelegramError ''timed out''),
            [''/r/7_100_0.wav'', ''/r/7_100_1.wav'', ''/r/7_100_2.wav'', ''/r/7_100_0.wav.ogg'',
             ''/r/7_100_1.wav.ogg''])"
    by code_simp
  have d: "RESULTS_PATH env_send_fails = ''/r''"
    by (simp add: env_send_fails_def env0_def)
  have e: "clear_dir ''/r''
             [''/r/7_100_0.wav'', ''/r/7_100_1.wav'', ''/r/7_100_2.wav'', ''/r/7_100_0.wav.ogg'',
              ''/r/7_100_1.wav.ogg''] = []"
    by code_simp
  from partial_fan_out_failure [OF a b c, of progress0] show ?thesis
    by (simp add: d e)
qed

subsection \<open>C7: the output path of a job\<close>

text \<open>
  C7 says that two distinct submissions never get the same output path. The clock reading
  is cut to whole seconds: two submissions of user 7 at 100 s and at 100.5 s get the same
  path.
\<close>

theorem same_user_same_second_same_path:
  "((7::int), (100::real)) \<noteq> (7, 201 / 2)
   \<and> result_filename ''/r'' 7 100 ''wav'' = result_filename ''/r'' 7 (201 / 2) ''wav''"
  by (simp add: result_filename_def int_of_float_def)

text \<open>
  C7 as amended: two submissions get the same output path exactly when the user ids are
  equal and the clock readings fall into the same whole second; submissions of different
  users, or in different seconds, get different paths.
\<close>

theorem result_filename_eq_iff:
  "result_filename R u1 t1 ft = result_filename R u2 t2 ft \<longleftrightarrow>
     u1 = u2 \<and> int_of_float t1 = int_of_float t2"
proof
  assume "result_filename R u1 t1 ft = result_filename R u2 t2 ft"
  then have "str_int u1 @ CHR ''_'' # (str_int (int_of_float t1) @ ''.'' @ ft) =
             str_int u2 @ CHR ''_'' # (str_int (int_of_float t2) @ ''.'' @ ft)"
    by (simp add: result_filename_def)
  then have "str_int u1 = str_int u2 \<and> str_int (int_of_float t1) = str_int (int_of_float t2)"
    using str_int_chars by (simp add: append_Cons_eq_iff)
  then show "u1 = u2 \<and> int_of_float t1 = int_of_float t2"
    using str_int_inj by blast
next
  assume "u1 = u2 \<and> int_of_float t1 = int_of_float t2"
  then show "result_filename R u1 t1 ft = result_filename R u2 t2 ft"
    by (simp add: result_filename_def)
qed

subsection \<open>C9: the hand-off of the completion callback\<close>

text \<open>
  C9 says that the completion callback hands off to the loop of the front thread through a
  thread-safe primitive before it touches anything the front thread owns. Whatever tuple
  the future holds, the only call of \<^verbatim>\<open>eval_gen_task\<close> is \<^verbatim>\<open>app.create_task\<close>, made
  directly; the error path of \<^verbatim>\<open>run_gen_audio\<close> wraps the same kind of call in a coroutine
  that it posts with \<^verbatim>\<open>run_coroutine_threadsafe\<close>.
\<close>

theorem completion_callback_calls_application_directly:
  "eval_gen_task (Inr r) =
     [AppCreateTask
        (PostEvalGenTask (r_update r) (r_filename_result r) (r_data r) (r_samples_num r)
           (effective_message (r_update r)) (r_progress_msg r))]
   \<and> filter thread_safe_handoff (eval_gen_task (Inr r)) = []
   \<and> filter front_owned_call (eval_gen_task (Inr r)) = eval_gen_task (Inr r)
   \<and> filter thread_safe_handoff
        (fst (run_gen_audio env_engine_fails job0 [])) =
       [RunCoroutineThreadsafe
          (HandlePostEvalGenReportError update0 progress0 (Exception ''engine failure'')) AppLoop]"
proof -
  have "filter thread_safe_handoff
        (fst (run_gen_audio env_engine_fails job0 [])) =
       [RunCoroutineThreadsafe
          (HandlePostEvalGenReportError update0 progress0 (Exception ''engine failure'')) AppLoop]"
    by code_simp
  then show ?thesis by (simp add: eval_gen_task_def)
qed

subsection \<open>C10: one caption for all samples of a job\<close>

text \<open>
  C10: eliding an elided text gives the same text again, and all voice replies that
  \<^verbatim>\<open>post_eval_gen_task\<close> has sent for a text carry the caption of the first one.
\<close>

theorem all_captions_equal:
  "elide E (elide E (Text s)) = elide E (Text s)
   \<and> (\<forall>i < length (captions (fst (post_eval_gen_task E upd fn (Text s) n msg pm fs))).
         captions (fst (post_eval_gen_task E upd fn (Text s) n msg pm fs)) ! i =
         captions (fst (post_eval_gen_task E upd fn (Text s) n msg pm fs)) ! 0)"
proof -
  let ?d = "deliver_samples E (effective_user upd) fn msg (Text s) (py_range n) fs"
  let ?c = "captions (fst (post_eval_gen_task E upd fn (Text s) n msg pm fs))"
  have e: "?c = captions (fst ?d)"
    by (simp add: post_eval_gen_task_def captions_append split: prod.splits sum.splits)
  have "\<forall>c \<in> set ?c. c = elide E (Text s)"
    unfolding e using deliver_samples_captions by blast
  then have "\<forall>i < length ?c. ?c ! i = elide E (Text s) \<and> ?c ! 0 = elide E (Text s)"
    by (metis length_greater_0_conv less_nat_zero_code list.size(3) nth_mem)
  then show ?thesis by simp
qed

theorem all_captions_equal_witness:
  "2 < length (captions (fst (post_eval_gen_task env0 update0 ''/r/7_100.wav''
                                (Text ''hello world'') 3 (effective_message update0) progress0 files0)))
   \<and> captions (fst (post_eval_gen_task env0 update0 ''/r/7_100.wav''
                       (Text ''hello world'') 3 (effective_message update0) progress0 files0)) ! 2 =
     captions (fst (post_eval_gen_task env0 update0 ''/r/7_100.wav''
                       (Text ''hello world'') 3 (effective_message update0) progress0 files0)) ! 0"
proof -
  have h: "2 < length (captions (fst (post_eval_gen_task env0 update0 ''/r/7_100.wav''
                                (Text ''hello world'') 3 (effective_message update0) progress0 files0)))"
    by code_simp
  from all_captions_equal [where E = env0 and s = "''hello world''" and upd = update0
      and fn = "''/r/7_100.wav''" and n = 3 and msg = "effective_message update0"
      and pm = progress0 and fs = files0] h
  show ?thesis by blast
qed

end
